theory Spec2Isabelle
  imports Complex_Main "HOL-Library.Sublist" "HOL-Library.Word"
begin

section \<open>JavaScript numbers\<close>

text \<open>
  A JavaScript \<^verbatim>\<open>number\<close> is an IEEE 754 double. A finite double is modelled as the rational
  it denotes, and every addition, multiplication and division rounds its exact result to the
  nearest double, ties to even (\<open>round53\<close> below). \<^verbatim>\<open>Math.abs\<close> and the comparisons are exact.

  A double has 53 significant bits. \<open>exponent x\<close> is the \<open>e\<close> with \<open>2 ^ e \<le> x < 2 ^ (e + 1)\<close>
  for a positive \<open>x\<close>, found from the bit lengths of numerator and denominator; the doubles
  around \<open>x\<close> are then the multiples of \<open>2 ^ (e - 52)\<close>, and \<open>round53 x\<close> is the nearest of them
  (\<open>exponent_bounds\<close>, \<open>round53_mantissa\<close> and \<open>round53_near\<close> below). The exponent range is not modelled:
  no result overflows to an infinity or falls into the subnormal range. \<^verbatim>\<open>NaN\<close> and negative zero
  are not represented either, except that a division by zero yields \<open>None\<close> (see \<open>js_div\<close>).
  Counts are natural numbers: they stay far below \<open>2 ^ 53\<close>, where a double counts exactly.
\<close>

function bitlength :: "int \<Rightarrow> nat" where
  "bitlength n = (if n \<le> 0 then 0 else Suc (bitlength (n div 2)))"
  by pat_completeness auto
termination
  by (relation "measure nat") auto

declare bitlength.simps [simp del]

definition pow2 :: "int \<Rightarrow> rat" where
  "pow2 e = (if 0 \<le> e then 2 ^ nat e else 1 / 2 ^ nat (- e))"

definition exponent :: "rat \<Rightarrow> int" where
  "exponent x =
     (let d = int (bitlength (fst (quotient_of x))) - int (bitlength (snd (quotient_of x)))
      in if pow2 d \<le> x then d else d - 1)"

definition round_half_even :: "rat \<Rightarrow> int" where
  "round_half_even x =
     (let f = \<lfloor>x\<rfloor>; r = x - of_int f
      in if r < 1 / 2 then f else if 1 / 2 < r then f + 1 else if even f then f else f + 1)"

definition round53 :: "rat \<Rightarrow> rat" where
  "round53 x =
     (if x = 0 then 0
      else let ulp = pow2 (exponent \<bar>x\<bar> - 52)
           in sgn x * of_int (round_half_even (\<bar>x\<bar> / ulp)) * ulp)"

text \<open>The operators \<^verbatim>\<open>+\<close> and \<^verbatim>\<open>*\<close> on doubles.\<close>

definition fadd :: "rat \<Rightarrow> rat \<Rightarrow> rat" where
  "fadd a b = round53 (a + b)"

definition fmul :: "rat \<Rightarrow> rat \<Rightarrow> rat" where
  "fmul a b = round53 (a * b)"

text \<open>
  The operator \<^verbatim>\<open>/\<close>: JavaScript yields \<^verbatim>\<open>NaN\<close> or an infinity when the divisor is zero, which is
  the value \<open>None\<close> here; every other quotient is rounded.
\<close>

definition js_div :: "rat \<Rightarrow> rat \<Rightarrow> rat option" where
  "js_div a b = (if b = 0 then None else Some (round53 (a / b)))"

section \<open>Data model of the expense pages\<close>

text \<open>
  The repository holds two versions of the expense page: \<^verbatim>\<open>client/src/pages/ExpenseCategories.tsx\<close>
  and the file \<^verbatim>\<open>unnamed/part_002\<close>. Both declare the same \<^verbatim>\<open>Transaction\<close> interface. Definitions
  taken from the second file carry the suffix \<open>_p2\<close>.
\<close>

datatype TransactionType = debit | credit

record Transaction =
  tx_id :: string
  tx_date :: string
  tx_description :: string
  tx_amount :: rat
  tx_type :: TransactionType
  tx_category :: string
  tx_confidence :: rat

subsection \<open>Object literals used as lookup tables\<close>

text \<open>
  \<^verbatim>\<open>CATEGORY_COLORS\<close> and \<^verbatim>\<open>CATEGORY_ICONS\<close> are object literals indexed by an arbitrary string.
  An object literal answers its own keys and, for any other key, the members it inherits from
  \<^verbatim>\<open>Object.prototype\<close>; those are functions or objects (truthy, not strings). Every other key
  reads as \<^verbatim>\<open>undefined\<close>, here \<open>None\<close>. The icons are emoji; each is written as the list of its
  Unicode code points in ASCII.
\<close>

datatype js_value = JStr string | JInherited string

definition Object_prototype_keys :: "string list" where
  "Object_prototype_keys =
     [''constructor'', ''__defineGetter__'', ''__defineSetter__'', ''hasOwnProperty'',
      ''__lookupGetter__'', ''__lookupSetter__'', ''isPrototypeOf'', ''propertyIsEnumerable'',
      ''toString'', ''valueOf'', ''__proto__'', ''toLocaleString'']"

definition js_member :: "(string \<times> string) list \<Rightarrow> string \<Rightarrow> js_value option" where
  "js_member obj k =
     (case map_of obj k of
        Some v \<Rightarrow> Some (JStr v)
      | None \<Rightarrow> if k \<in> set Object_prototype_keys then Some (JInherited k) else None)"

text \<open>The operator \<^verbatim>\<open>a || b\<close> on a looked-up member: \<^verbatim>\<open>undefined\<close> and the empty string are falsy.\<close>

definition js_or :: "js_value option \<Rightarrow> js_value \<Rightarrow> js_value" where
  "js_or a b =
     (case a of
        None \<Rightarrow> b
      | Some (JStr s) \<Rightarrow> if s = [] then b else JStr s
      | Some (JInherited k) \<Rightarrow> JInherited k)"

definition CATEGORY_COLORS :: "(string \<times> string) list" where
  "CATEGORY_COLORS =
     [(''Food & Dining'', ''bg-red-100 text-red-800 border-red-200''),
      (''Transportation'', ''bg-blue-100 text-blue-800 border-blue-200''),
      (''Shopping'', ''bg-purple-100 text-purple-800 border-purple-200''),
      (''Bills & Utilities'', ''bg-yellow-100 text-yellow-800 border-yellow-200''),
      (''Healthcare'', ''bg-green-100 text-green-800 border-green-200''),
      (''Entertainment'', ''bg-pink-100 text-pink-800 border-pink-200''),
      (''Travel'', ''bg-indigo-100 text-indigo-800 border-indigo-200''),
      (''Income'', ''bg-emerald-100 text-emerald-800 border-emerald-200''),
      (''Transfers'', ''bg-gray-100 text-gray-800 border-gray-200''),
      (''Miscellaneous'', ''bg-orange-100 text-orange-800 border-orange-200'')]"

definition CATEGORY_ICONS :: "(string \<times> string) list" where
  "CATEGORY_ICONS =
     [(''Food & Dining'', ''U+1F37D U+FE0F''),
      (''Transportation'', ''U+1F697''),
      (''Shopping'', ''U+1F6CD U+FE0F''),
      (''Bills & Utilities'', ''U+1F4A1''),
      (''Healthcare'', ''U+1F3E5''),
      (''Entertainment'', ''U+1F3AC''),
      (''Travel'', ''U+2708 U+FE0F''),
      (''Income'', ''U+1F4B0''),
      (''Transfers'', ''U+1F504''),
      (''Miscellaneous'', ''U+1F4CB'')]"

text \<open>The member reads \<^verbatim>\<open>CATEGORY_COLORS.Miscellaneous\<close> and \<^verbatim>\<open>CATEGORY_ICONS.Miscellaneous\<close>.\<close>

definition COLORS_Miscellaneous :: js_value where
  "COLORS_Miscellaneous = JStr ''bg-orange-100 text-orange-800 border-orange-200''"

definition ICONS_Miscellaneous :: js_value where
  "ICONS_Miscellaneous = JStr ''U+1F4CB''"

text \<open>
  \<^verbatim>\<open>CATEGORY_COLORS[name] || CATEGORY_COLORS.Miscellaneous\<close> and
  \<^verbatim>\<open>CATEGORY_ICONS[name] || CATEGORY_ICONS.Miscellaneous\<close> (ExpenseCategories.tsx, lines 99-100).
\<close>

definition categoryColor :: "string \<Rightarrow> js_value" where
  "categoryColor name = js_or (js_member CATEGORY_COLORS name) COLORS_Miscellaneous"

definition categoryIcon :: "string \<Rightarrow> js_value" where
  "categoryIcon name = js_or (js_member CATEGORY_ICONS name) ICONS_Miscellaneous"

text \<open>
  The same two lookups in part_002 (lines 102-103); the icon's default there is the literal
  clipboard emoji instead of the table's member.
\<close>

definition categoryColor_p2 :: "string \<Rightarrow> js_value" where
  "categoryColor_p2 name = js_or (js_member CATEGORY_COLORS name) COLORS_Miscellaneous"

definition categoryIcon_p2 :: "string \<Rightarrow> js_value" where
  "categoryIcon_p2 name = js_or (js_member CATEGORY_ICONS name) (JStr ''U+1F4CB'')"

subsection \<open>A JavaScript Map, in insertion order\<close>

text \<open>
  \<^verbatim>\<open>new Map()\<close> keeps its entries in the order in which the keys were first set. \<^verbatim>\<open>set\<close> on a
  key that is present replaces the value where it stands; on a new key it appends.
\<close>

fun Map_get :: "(string \<times> 'v) list \<Rightarrow> string \<Rightarrow> 'v option" where
  "Map_get [] k = None"
| "Map_get ((k', v) # m) k = (if k' = k then Some v else Map_get m k)"

fun Map_set :: "(string \<times> 'v) list \<Rightarrow> string \<Rightarrow> 'v \<Rightarrow> (string \<times> 'v) list" where
  "Map_set [] k v = [(k, v)]"
| "Map_set ((k', v') # m) k v = (if k' = k then (k, v) # m else (k', v') # Map_set m k v)"

text \<open>The values of \<^verbatim>\<open>categoryMap\<close>: \<^verbatim>\<open>{ total: number; count: number }\<close>.\<close>

record Acc =
  acc_total :: rat
  acc_count :: nat

section \<open>The summary computation of ExpenseCategories.tsx\<close>

record CategorySummary =
  cs_name :: string
  cs_total :: rat
  cs_count :: nat
  cs_color :: js_value
  cs_icon :: js_value

text \<open>The body of \<^verbatim>\<open>transactions.forEach\<close> (lines 85-93): only a debit touches the map.\<close>

definition addTransaction :: "(string \<times> Acc) list \<Rightarrow> Transaction \<Rightarrow> (string \<times> Acc) list" where
  "addTransaction categoryMap transaction =
     (if tx_type transaction = debit then
        let existing = (case Map_get categoryMap (tx_category transaction) of
                          Some e \<Rightarrow> e
                        | None \<Rightarrow> \<lparr>acc_total = 0, acc_count = 0\<rparr>)
        in Map_set categoryMap (tx_category transaction)
             \<lparr>acc_total = fadd (acc_total existing) \<bar>tx_amount transaction\<bar>,
              acc_count = acc_count existing + 1\<rparr>
      else categoryMap)"

definition categoryMap_of :: "Transaction list \<Rightarrow> (string \<times> Acc) list" where
  "categoryMap_of transactions = foldl addTransaction [] transactions"

definition toSummary :: "string \<times> Acc \<Rightarrow> CategorySummary" where
  "toSummary e =
     \<lparr>cs_name = fst e, cs_total = acc_total (snd e), cs_count = acc_count (snd e),
      cs_color = categoryColor (fst e), cs_icon = categoryIcon (fst e)\<rparr>"

text \<open>
  \<^verbatim>\<open>Array.from(categoryMap.entries()).map(...).sort((a, b) => b.total - a.total)\<close>.
  \<^verbatim>\<open>Array.prototype.sort\<close> is stable, and the comparator puts the larger total first (its
  rounded difference has the sign of the exact one and is zero only for equal totals): this is
  the stable insertion sort \<open>sort_key\<close> on the negated total.
\<close>

definition calculateCategorySummary :: "Transaction list \<Rightarrow> CategorySummary list" where
  "calculateCategorySummary transactions =
     sort_key (\<lambda>s. - cs_total s) (map toSummary (categoryMap_of transactions))"

text \<open>\<^verbatim>\<open>categories.reduce((sum, cat) => sum + cat.total, 0)\<close> (line 119).\<close>

definition totalExpenses :: "CategorySummary list \<Rightarrow> rat" where
  "totalExpenses categories = foldl (\<lambda>sum cat. fadd sum (cs_total cat)) 0 categories"

text \<open>
  The width of a tile's bar, \<^verbatim>\<open>(category.total / totalExpenses) * 100\<close> (line 239): the share of
  a category, computed when the tiles are rendered, without a guard.
\<close>

definition tileWidth :: "CategorySummary list \<Rightarrow> CategorySummary \<Rightarrow> rat option" where
  "tileWidth categories category =
     map_option (\<lambda>q. fmul q 100) (js_div (cs_total category) (totalExpenses categories))"

section \<open>The summary computation of part_002\<close>

record CategorySummary_p2 =
  p2_name :: string
  p2_total :: rat
  p2_count :: nat
  p2_percentage :: "rat option"
  p2_color :: js_value
  p2_icon :: js_value

text \<open>\<^verbatim>\<open>transactions.reduce((sum, t) => sum + t.amount, 0)\<close> (line 86).\<close>

definition totalAmount_p2 :: "Transaction list \<Rightarrow> rat" where
  "totalAmount_p2 transactions = foldl (\<lambda>sum t. fadd sum (tx_amount t)) 0 transactions"

text \<open>The body of \<^verbatim>\<open>transactions.forEach\<close> (lines 88-95): every transaction, with its signed amount.\<close>

definition addTransaction_p2 :: "(string \<times> Acc) list \<Rightarrow> Transaction \<Rightarrow> (string \<times> Acc) list" where
  "addTransaction_p2 categoryMap transaction =
     (let category = tx_category transaction;
          existing = (case Map_get categoryMap category of
                        Some e \<Rightarrow> e
                      | None \<Rightarrow> \<lparr>acc_total = 0, acc_count = 0\<rparr>)
      in Map_set categoryMap category
           \<lparr>acc_total = fadd (acc_total existing) (tx_amount transaction),
            acc_count = acc_count existing + 1\<rparr>)"

definition categoryMap_of_p2 :: "Transaction list \<Rightarrow> (string \<times> Acc) list" where
  "categoryMap_of_p2 transactions = foldl addTransaction_p2 [] transactions"

text \<open>\<^verbatim>\<open>totalAmount > 0 ? (data.total / totalAmount) * 100 : 0\<close> (line 101).\<close>

definition percentageOf :: "rat \<Rightarrow> rat \<Rightarrow> rat option" where
  "percentageOf totalAmount data_total =
     (if totalAmount > 0 then map_option (\<lambda>q. fmul q 100) (js_div data_total totalAmount)
      else Some 0)"

definition toSummary_p2 :: "rat \<Rightarrow> string \<times> Acc \<Rightarrow> CategorySummary_p2" where
  "toSummary_p2 totalAmount e =
     \<lparr>p2_name = fst e, p2_total = acc_total (snd e), p2_count = acc_count (snd e),
      p2_percentage = percentageOf totalAmount (acc_total (snd e)),
      p2_color = categoryColor_p2 (fst e), p2_icon = categoryIcon_p2 (fst e)\<rparr>"

definition calculateCategorySummary_p2 :: "Transaction list \<Rightarrow> CategorySummary_p2 list" where
  "calculateCategorySummary_p2 transactions =
     sort_key (\<lambda>s. - p2_total s)
       (map (toSummary_p2 (totalAmount_p2 transactions)) (categoryMap_of_p2 transactions))"

section \<open>The page state and the override handler\<close>

text \<open>
  An awaited call either resolves with a value or rejects. \<^verbatim>\<open>updateTransactionCategory\<close> and
  \<^verbatim>\<open>searchDocuments\<close> reach the server; they are parameters of the handlers below.
\<close>

datatype 'a outcome = Resolved 'a | Rejected string

datatype toast = toast_success string | toast_error string

text \<open>
  The \<^verbatim>\<open>useState\<close> cells of the component. The two files differ in the type of their summaries
  (\<open>'c\<close>) and in their view settings (\<open>'v\<close>); \<open>toasts\<close> records the notifications shown.
\<close>

record ('c, 'v) PageState =
  transactions :: "Transaction list"
  categories :: "'c list"
  loading :: bool
  editingTransaction :: "string option"
  selectedCategory :: string
  view :: 'v
  toasts :: "toast list"

text \<open>
  The view settings of ExpenseCategories.tsx (lines 57-58) and of part_002 (lines 58-60). The
  view mode \<^verbatim>\<open>'transactions'\<close> is the constructor \<open>transactions_view\<close>.
\<close>

record View =
  filterCategory :: string
  sortBy :: string

datatype ViewMode = tiles | transactions_view

record View_p2 =
  viewMode :: ViewMode
  selectedCategoryForView :: string
  sortBy_p2 :: string

text \<open>
  \<^verbatim>\<open>handleCategoryUpdate\<close> is the same text in both files (lines 104-117 and 107-120), over the
  file's own \<^verbatim>\<open>calculateCategorySummary\<close>, here \<open>summarize\<close>. The handler is a closure of one
  render: its \<^verbatim>\<open>transactions\<close> is the list of the state \<open>s\<close> it was created in, while the
  updater passed to \<^verbatim>\<open>setTransactions\<close> receives the current list \<^verbatim>\<open>prev\<close>, the same list
  when nothing else ran in between. The \<^verbatim>\<open>console.error\<close> line of the catch branch writes to the
  console only and is left out.
\<close>

definition handleCategoryUpdate_with ::
  "(Transaction list \<Rightarrow> 'c list) \<Rightarrow> (string \<Rightarrow> string \<Rightarrow> unit outcome) \<Rightarrow> string \<Rightarrow> string \<Rightarrow>
   ('c, 'v) PageState \<Rightarrow> ('c, 'v) PageState" where
  "handleCategoryUpdate_with summarize updateTransactionCategory transactionId newCategory s =
     (case updateTransactionCategory transactionId newCategory of
        Resolved _ \<Rightarrow>
          s\<lparr>transactions :=
               map (\<lambda>t. if tx_id t = transactionId then t\<lparr>tx_category := newCategory\<rparr> else t)
                 (transactions s),
            categories := summarize (transactions s),
            editingTransaction := None,
            toasts := toasts s @ [toast_success ''Category updated successfully'']\<rparr>
      | Rejected e \<Rightarrow> s\<lparr>toasts := toasts s @ [toast_error ''Failed to update category'']\<rparr>)"

definition handleCategoryUpdate ::
  "(string \<Rightarrow> string \<Rightarrow> unit outcome) \<Rightarrow> string \<Rightarrow> string \<Rightarrow>
   (CategorySummary, View) PageState \<Rightarrow> (CategorySummary, View) PageState" where
  "handleCategoryUpdate = handleCategoryUpdate_with calculateCategorySummary"

definition handleCategoryUpdate_p2 ::
  "(string \<Rightarrow> string \<Rightarrow> unit outcome) \<Rightarrow> string \<Rightarrow> string \<Rightarrow>
   (CategorySummary_p2, View_p2) PageState \<Rightarrow> (CategorySummary_p2, View_p2) PageState" where
  "handleCategoryUpdate_p2 = handleCategoryUpdate_with calculateCategorySummary_p2"

section \<open>The classified counts of the two views\<close>

text \<open>
  ExpenseCategories.tsx, lines 141 and 203: \<^verbatim>\<open>unclassifiedTransactions\<close> and the figure
  \<^verbatim>\<open>transactions.length - unclassifiedTransactions.length\<close>. The literal \<^verbatim>\<open>0.7\<close> is the double
  nearest to 7/10.
\<close>

definition unclassifiedTransactions :: "Transaction list \<Rightarrow> Transaction list" where
  "unclassifiedTransactions ts =
     filter (\<lambda>t. tx_category t = ''Miscellaneous'' \<or> tx_confidence t < round53 (7 / 10)) ts"

definition classifiedCount :: "Transaction list \<Rightarrow> int" where
  "classifiedCount ts = int (length ts) - int (length (unclassifiedTransactions ts))"

text \<open>
  part_002, lines 134-139 and 211: \<^verbatim>\<open>filteredTransactions\<close> and the figure
  \<^verbatim>\<open>transactions.length - filteredTransactions.filter(t => t.category === 'Miscellaneous').length\<close>.
\<close>

definition filteredTransactions_p2 :: "View_p2 \<Rightarrow> Transaction list \<Rightarrow> Transaction list" where
  "filteredTransactions_p2 v ts =
     filter (\<lambda>transaction.
        if viewMode v = transactions_view \<and> selectedCategoryForView v \<noteq> []
        then tx_category transaction = selectedCategoryForView v
        else True) ts"

definition classifiedCount_p2 :: "View_p2 \<Rightarrow> Transaction list \<Rightarrow> int" where
  "classifiedCount_p2 v ts =
     int (length ts) -
     int (length (filter (\<lambda>t. tx_category t = ''Miscellaneous'') (filteredTransactions_p2 v ts)))"

section \<open>The search handler\<close>

text \<open>
  The query is a JavaScript string, a sequence of UTF-16 code units. \<^verbatim>\<open>String.prototype.trim\<close>
  strips the code units that ECMAScript calls white space or line terminators from both ends.
\<close>

definition isWhiteSpace :: "16 word \<Rightarrow> bool" where
  "isWhiteSpace c \<longleftrightarrow>
     c \<in> set [0x0009, 0x000A, 0x000B, 0x000C, 0x000D, 0x0020, 0x00A0, 0x1680,
              0x2000, 0x2001, 0x2002, 0x2003, 0x2004, 0x2005, 0x2006, 0x2007, 0x2008, 0x2009,
              0x200A, 0x2028, 0x2029, 0x202F, 0x205F, 0x3000, 0xFEFF]"

definition trim :: "16 word list \<Rightarrow> 16 word list" where
  "trim q = rev (dropWhile isWhiteSpace (rev (dropWhile isWhiteSpace q)))"

record SearchResult =
  sr_text :: string
  sr_metadata :: "(string \<times> string) list"
  sr_similarity_score :: rat

record SearchRequest =
  rq_query :: "16 word list"
  rq_limit :: int

record SearchResponse =
  results :: "SearchResult list"
  message :: string

text \<open>
  The search slice of the store. The other slices (documents, messages, server status) are the
  record's extension: \<^verbatim>\<open>setSearching\<close>, \<^verbatim>\<open>setSearchQuery\<close> and \<^verbatim>\<open>setSearchResults\<close> each set one
  field and leave everything else as it is.
\<close>

record AppState =
  searchResults :: "SearchResult list"
  isSearching :: bool
  searchQuery :: "16 word list"

text \<open>
  \<^verbatim>\<open>handleSearch\<close> (SearchInterface.tsx, lines 21-36). The result is the outcome of the handler's
  own promise, the store it leaves, and the requests it sent to the backend.
\<close>

definition handleSearch ::
  "(SearchRequest \<Rightarrow> SearchResponse outcome) \<Rightarrow> 16 word list \<Rightarrow> int \<Rightarrow> 'a AppState_scheme \<Rightarrow>
   unit outcome \<times> 'a AppState_scheme \<times> SearchRequest list" where
  "handleSearch searchDocuments query limit s =
     (if trim query = [] then (Resolved (), s, [])
      else
        let s1 = s\<lparr>isSearching := True\<rparr>;
            s2 = s1\<lparr>searchQuery := query\<rparr>;
            request = \<lparr>rq_query = query, rq_limit = limit\<rparr>
        in (case searchDocuments request of
              Resolved response \<Rightarrow>
                (Resolved (), (s2\<lparr>searchResults := results response\<rparr>)\<lparr>isSearching := False\<rparr>,
                 [request])
            | Rejected error \<Rightarrow>
                (Resolved (), (s2\<lparr>searchResults := []\<rparr>)\<lparr>isSearching := False\<rparr>, [request])))"

section \<open>Concrete inputs\<close>

text \<open>
  A credit, and a statement of three debits around it, in the order the server sends them; the
  two cafe rows share a description. Every number is a double.
\<close>

definition salary :: Transaction where
  "salary =
     \<lparr>tx_id = ''t2'', tx_date = ''2024-03-02'', tx_description = ''Salary'', tx_amount = 5000,
      tx_type = credit, tx_category = ''Income'', tx_confidence = 1\<rparr>"

definition sample :: "Transaction list" where
  "sample =
     [\<lparr>tx_id = ''t1'', tx_date = ''2024-03-01'', tx_description = ''Cafe'', tx_amount = 120,
       tx_type = debit, tx_category = ''Food & Dining'', tx_confidence = 7 / 8\<rparr>,
      salary,
      \<lparr>tx_id = ''t3'', tx_date = ''2024-03-03'', tx_description = ''Cafe'', tx_amount = - 30,
       tx_type = debit, tx_category = ''Food & Dining'', tx_confidence = 1 / 2\<rparr>,
      \<lparr>tx_id = ''t4'', tx_date = ''2024-03-04'', tx_description = ''Bus pass'', tx_amount = 50,
       tx_type = debit, tx_category = ''Transportation'', tx_confidence = 3 / 4\<rparr>]"

text \<open>A debit transaction with the given id, amount and category, for the concrete cases.\<close>

definition mkDebit :: "string \<Rightarrow> rat \<Rightarrow> string \<Rightarrow> Transaction" where
  "mkDebit i a c =
     \<lparr>tx_id = i, tx_date = ''2024-01-01'', tx_description = ''payment'', tx_amount = a,
      tx_type = debit, tx_category = c, tx_confidence = 1\<rparr>"

text \<open>A debit of low confidence outside Miscellaneous.\<close>

definition lowConfidence :: Transaction where
  "lowConfidence =
     \<lparr>tx_id = ''t9'', tx_date = ''2024-03-09'', tx_description = ''Corner shop'', tx_amount = 40,
      tx_type = debit, tx_category = ''Shopping'', tx_confidence = 1 / 2\<rparr>"


text \<open>A debit of amount zero.\<close>

definition freebie :: Transaction where
  "freebie = mkDebit ''f1'' 0 ''Shopping''"

text \<open>
  The page of each file after \<open>sample\<close> was loaded and rendered, with the row \<open>t1\<close> being edited,
  and a server that accepts every override. The summaries were computed from the list as the
  server sent it. When ExpenseCategories.tsx renders with the filter \<^verbatim>\<open>all\<close>, its
  \<^verbatim>\<open>getFilteredTransactions\<close> sorts the state array itself, newest first (line 127), so that page
  holds the rows of \<open>sample\<close> in reverse; part_002 sorts a copy (line 141).
\<close>

definition page0 :: "(CategorySummary, View) PageState" where
  "page0 =
     \<lparr>transactions = rev sample, categories = calculateCategorySummary sample, loading = False,
      editingTransaction = Some ''t1'', selectedCategory = ''Shopping'',
      view = \<lparr>filterCategory = ''all'', sortBy = ''date''\<rparr>, toasts = []\<rparr>"

definition page0_p2 :: "(CategorySummary_p2, View_p2) PageState" where
  "page0_p2 =
     \<lparr>transactions = sample, categories = calculateCategorySummary_p2 sample, loading = False,
      editingTransaction = Some ''t1'', selectedCategory = ''Shopping'',
      view = \<lparr>viewMode = tiles, selectedCategoryForView = [], sortBy_p2 = ''date''\<rparr>,
      toasts = []\<rparr>"

definition accepting :: "string \<Rightarrow> string \<Rightarrow> unit outcome" where
  "accepting transactionId category = Resolved ()"

text \<open>A store that holds an earlier search, and a backend whose call throws.\<close>

definition store0 :: AppState where
  "store0 = \<lparr>searchResults = [\<lparr>sr_text = ''old hit'', sr_metadata = [], sr_similarity_score = 1 / 2\<rparr>],
             isSearching = False, searchQuery = [0x6F, 0x6C, 0x64]\<rparr>"

definition failing :: "SearchRequest \<Rightarrow> SearchResponse outcome" where
  "failing request = Rejected ''Network Error''"

section \<open>Auxiliary notions\<close>

text \<open>The elements of a list in the order of their first occurrence.\<close>

fun first_occurrences :: "'a list \<Rightarrow> 'a list" where
  "first_occurrences [] = []"
| "first_occurrences (x # xs) = x # filter (\<lambda>y. y \<noteq> x) (first_occurrences xs)"

text \<open>
  Both \<^verbatim>\<open>forEach\<close> bodies add an amount to the entry of a category; \<open>tally\<close> is that loop over
  the pairs of category and amount.
\<close>

definition lookup0 :: "(string \<times> Acc) list \<Rightarrow> string \<Rightarrow> Acc" where
  "lookup0 m c = (case Map_get m c of Some e \<Rightarrow> e | None \<Rightarrow> \<lparr>acc_total = 0, acc_count = 0\<rparr>)"

definition bump :: "(string \<times> Acc) list \<Rightarrow> string \<Rightarrow> rat \<Rightarrow> (string \<times> Acc) list" where
  "bump m c x = Map_set m c \<lparr>acc_total = fadd (acc_total (lookup0 m c)) x,
                              acc_count = acc_count (lookup0 m c) + 1\<rparr>"

definition tally :: "(string \<times> Acc) list \<Rightarrow> (string \<times> rat) list \<Rightarrow> (string \<times> Acc) list" where
  "tally m ps = foldl (\<lambda>m p. bump m (fst p) (snd p)) m ps"

section \<open>Properties of the rounding\<close>

text \<open>
  \<open>exponent\<close> finds the binade of a positive number; \<open>round53 x\<close> is, up to its sign, a
  significand between \<open>2 ^ 52\<close> and \<open>2 ^ 53\<close> times the unit of that binade, and lies within half a
  unit of \<open>x\<close>.
\<close>

lemma round_half_even_of_int: "round_half_even (of_int m) = m"
  by (simp add: round_half_even_def)

lemma pow2_pos: "0 < pow2 e"
  by (simp add: pow2_def)

lemma bitlength_bounds:
  "0 < n \<Longrightarrow> 2 ^ (bitlength n - 1) \<le> n \<and> n < 2 ^ bitlength n"
proof (induction n rule: bitlength.induct)
  case (1 n)
  show ?case
  proof (cases "n = 1")
    case True
    then show ?thesis by (simp add: bitlength.simps)
  next
    case False
    with "1.prems" have h: "0 < n div 2" by simp
    with "1.prems" "1.IH" have ih: "2 ^ (bitlength (n div 2) - 1) \<le> n div 2" "n div 2 < 2 ^ bitlength (n div 2)"
      by simp_all
    from h have bp: "0 < bitlength (n div 2)" by (subst bitlength.simps) simp
    have b: "bitlength n = Suc (bitlength (n div 2))"
      using "1.prems" by (subst bitlength.simps) simp
    from bp have "(2::int) ^ (bitlength n - 1) = 2 * 2 ^ (bitlength (n div 2) - 1)"
      by (cases "bitlength (n div 2)") (simp_all add: b)
    with ih(1) have lo: "2 ^ (bitlength n - 1) \<le> n" by simp
    from ih(2) have "n < 2 ^ bitlength n" by (simp add: b)
    with lo show ?thesis by simp
  qed
qed

lemma pow2_diff: "pow2 (int a - int b) = 2 ^ a / 2 ^ b"
proof (cases "b \<le> a")
  case True
  then have "pow2 (int a - int b) = 2 ^ (a - b)" by (simp add: pow2_def nat_diff_distrib')
  also from True have "\<dots> = (2::rat) ^ a / 2 ^ b" by (simp add: power_diff)
  finally show ?thesis .
next
  case False
  then have "pow2 (int a - int b) = 1 / 2 ^ (b - a)" by (simp add: pow2_def nat_diff_distrib')
  also from False have "\<dots> = (2::rat) ^ a / 2 ^ b" by (simp add: power_diff)
  finally show ?thesis .
qed

lemma exponent_bounds:
  assumes "0 < x"
  shows "pow2 (exponent x) \<le> x \<and> x < pow2 (exponent x + 1)"
proof -
  obtain p q where pq: "quotient_of x = (p, q)" by (cases "quotient_of x")
  then have q: "0 < q" and x: "x = of_int p / of_int q"
    by (simp_all add: quotient_of_denom_pos quotient_of_div)
  with assms have p: "0 < p" by (simp add: zero_less_divide_iff)
  let ?d = "int (bitlength p) - int (bitlength q)"
  have e: "exponent x = (if pow2 ?d \<le> x then ?d else ?d - 1)"
    by (simp add: exponent_def pq Let_def)
  note bp = bitlength_bounds [OF p] and bq = bitlength_bounds [OF q]
  have q1: "0 < bitlength q" using q by (subst bitlength.simps) simp
  have p1: "0 < bitlength p" using p by (subst bitlength.simps) simp
  have qr: "(0::rat) < of_int q" using q by simp
  have up: "x < pow2 (?d + 1)"
  proof -
    have "(of_int p :: rat) < of_int (2 ^ bitlength p)"
      using bp by (simp only: of_int_less_iff)
    then have 1: "(of_int p :: rat) < 2 ^ bitlength p" by simp
    have "(of_int (2 ^ (bitlength q - 1)) :: rat) \<le> of_int q"
      using bq by (simp only: of_int_le_iff)
    then have 2: "(2::rat) ^ (bitlength q - 1) \<le> of_int q" by simp
    have 3: "(0::rat) \<le> of_int p" using p by simp
    have 4: "(0::rat) < 2 ^ (bitlength q - 1)" by simp
    have "x < 2 ^ bitlength p / 2 ^ (bitlength q - 1)"
      unfolding x using 3 1 4 2 by (rule frac_less)
    also have "\<dots> = pow2 (int (bitlength p) - int (bitlength q - 1))"
      by (simp only: pow2_diff)
    also have "int (bitlength p) - int (bitlength q - 1) = ?d + 1"
      using q1 by simp
    finally show ?thesis .
  qed
  have lo: "pow2 (?d - 1) \<le> x"
  proof -
    have "(of_int (2 ^ (bitlength p - 1)) :: rat) \<le> of_int p"
      using bp by (simp only: of_int_le_iff)
    then have 1: "(2::rat) ^ (bitlength p - 1) \<le> of_int p" by simp
    from bq have "q \<le> 2 ^ bitlength q" by simp
    then have "(of_int q :: rat) \<le> of_int (2 ^ bitlength q)"
      by (simp only: of_int_le_iff)
    then have 2: "(of_int q :: rat) \<le> 2 ^ bitlength q" by simp
    have 3: "(0::rat) \<le> of_int p" using p by simp
    have le: "2 ^ (bitlength p - 1) / 2 ^ bitlength q \<le> x"
      unfolding x using 3 1 qr 2 by (rule frac_le)
    have eq: "?d - 1 = int (bitlength p - 1) - int (bitlength q)"
      using p1 by simp
    show ?thesis unfolding eq pow2_diff by (rule le)
  qed
  show ?thesis
  proof (cases "pow2 ?d \<le> x")
    case True
    with e up show ?thesis by simp
  next
    case False
    then have "x < pow2 ?d" by simp
    moreover have "?d - 1 + 1 = ?d" by simp
    ultimately show ?thesis using e lo False by simp
  qed
qed


lemma round_half_even_near: "\<bar>of_int (round_half_even y) - y\<bar> \<le> 1 / 2"
proof -
  have "of_int \<lfloor>y\<rfloor> \<le> y" and "y < of_int \<lfloor>y\<rfloor> + 1"
    by linarith+
  then show ?thesis
    by (auto simp: round_half_even_def Let_def abs_le_iff)
qed

lemma round53_near: "\<bar>round53 x - x\<bar> \<le> pow2 (exponent \<bar>x\<bar> - 52) / 2"
proof (cases "x = 0")
  case True
  then show ?thesis using pow2_pos [of "exponent \<bar>x\<bar> - 52"] by (simp add: round53_def)
next
  case False
  define u where "u = pow2 (exponent \<bar>x\<bar> - 52)"
  define y where "y = \<bar>x\<bar> / u"
  define m where "m = round_half_even y"
  have u: "0 < u" by (simp add: u_def pow2_pos)
  have r: "round53 x = sgn x * of_int m * u"
    using False by (simp add: round53_def Let_def u_def m_def y_def)
  have "\<bar>x\<bar> = y * u" using u by (simp add: y_def)
  then have "x = sgn x * (y * u)" by (metis sgn_mult_abs)
  then have "round53 x - x = sgn x * of_int m * u - sgn x * (y * u)"
    by (simp only: r)
  also have "\<dots> = sgn x * ((of_int m - y) * u)"
    by (simp add: algebra_simps)
  finally have "\<bar>round53 x - x\<bar> = \<bar>of_int m - y\<bar> * u"
    using False u by (simp add: abs_mult abs_sgn_eq)
  also have "\<dots> \<le> 1 / 2 * u"
    using round_half_even_near [of y] u unfolding m_def
    by (intro mult_right_mono) simp_all
  finally show ?thesis by (simp add: u_def)
qed


lemma pow2_powi: "pow2 e = power_int 2 e"
  by (simp add: pow2_def power_int_def power_one_over [symmetric] inverse_eq_divide)

lemma pow2_52: "pow2 e / pow2 (e - 52) = 2 ^ 52" and pow2_53: "pow2 (e + 1) / pow2 (e - 52) = 2 ^ 53"
proof -
  have "pow2 e / pow2 (e - 52) = power_int 2 (e - (e - 52))"
    unfolding pow2_powi by (subst power_int_diff) simp_all
  then show "pow2 e / pow2 (e - 52) = 2 ^ 52" by simp
  have "pow2 (e + 1) / pow2 (e - 52) = power_int 2 (e + 1 - (e - 52))"
    unfolding pow2_powi by (subst power_int_diff) simp_all
  then show "pow2 (e + 1) / pow2 (e - 52) = 2 ^ 53" by simp
qed

lemma round_half_even_bounds:
  assumes "of_int a \<le> y" and "y < of_int b"
  shows "a \<le> round_half_even y" and "round_half_even y \<le> b"
proof -
  from assms(1) have a: "a \<le> \<lfloor>y\<rfloor>" by (simp add: le_floor_iff)
  from assms(2) have b: "\<lfloor>y\<rfloor> < b" by (simp add: floor_less_iff)
  from a show "a \<le> round_half_even y"
    by (simp add: round_half_even_def Let_def)
  from b show "round_half_even y \<le> b"
    by (simp add: round_half_even_def Let_def)
qed

lemma round53_mantissa:
  assumes "x \<noteq> 0"
  shows "\<exists>m. round53 x = sgn x * of_int m * pow2 (exponent \<bar>x\<bar> - 52) \<and> 2 ^ 52 \<le> m \<and> m \<le> 2 ^ 53"
proof -
  define e where "e = exponent \<bar>x\<bar>"
  define u where "u = pow2 (e - 52)"
  define y where "y = \<bar>x\<bar> / u"
  have u: "0 < u" by (simp add: u_def pow2_pos)
  from assms have "0 < \<bar>x\<bar>" by simp
  from exponent_bounds [OF this] have b: "pow2 e \<le> \<bar>x\<bar>" "\<bar>x\<bar> < pow2 (e + 1)"
    by (simp_all add: e_def)
  from b(1) u have "pow2 e / u \<le> y" unfolding y_def by (rule divide_right_mono [OF _ less_imp_le])
  then have lo: "of_int (2 ^ 52) \<le> y" by (simp add: u_def pow2_52)
  from b(2) u have "y < pow2 (e + 1) / u" unfolding y_def by (rule divide_strict_right_mono)
  then have hi: "y < of_int (2 ^ 53)" by (simp add: u_def pow2_53)
  note m = round_half_even_bounds [OF lo hi]
  have "round53 x = sgn x * of_int (round_half_even y) * pow2 (exponent \<bar>x\<bar> - 52)"
    using assms by (simp add: round53_def Let_def y_def u_def e_def)
  with m show ?thesis by blast
qed

text \<open>The whole numbers.\<close>

lemma bitlength_le: "n < 2 ^ k \<Longrightarrow> bitlength n \<le> k"
proof (induction k arbitrary: n)
  case 0
  then show ?case by (simp add: bitlength.simps)
next
  case (Suc k)
  show ?case
  proof (cases "n \<le> 0")
    case True
    then show ?thesis by (simp add: bitlength.simps)
  next
    case False
    from Suc.prems have "n div 2 < 2 ^ k" by simp
    then have "bitlength (n div 2) \<le> k" by (rule Suc.IH)
    with False show ?thesis by (subst bitlength.simps) simp
  qed
qed

lemma exponent_of_int:
  assumes "0 < n" and "n \<le> 2 ^ 53"
  shows "exponent (of_int n) \<le> 52 \<or> (exponent (of_int n) = 53 \<and> n = 2 ^ 53)"
proof -
  let ?d = "int (bitlength n) - int (bitlength 1)"
  have b1: "bitlength 1 = 1"
    by (simp add: bitlength.simps)
  from assms(2) have "n < 2 ^ 54" by simp
  then have "bitlength n \<le> 54" by (rule bitlength_le)
  with b1 have d: "?d \<le> 53" by simp
  have e: "exponent (of_int n) = (if pow2 ?d \<le> of_int n then ?d else ?d - 1)"
    by (simp add: exponent_def quotient_of_int Let_def)
  show ?thesis
  proof (cases "pow2 ?d \<le> of_int n \<and> ?d = 53")
    case True
    then have le: "pow2 ?d \<le> of_int n" and d53: "?d = 53" by blast+
    have "pow2 53 \<le> of_int n" using le unfolding d53 .
    then have "(of_int (2 ^ 53) :: rat) \<le> of_int n" by (simp add: pow2_def)
    then have "2 ^ 53 \<le> n" by (simp only: of_int_le_iff)
    with assms(2) have "n = 2 ^ 53" by simp
    with True e show ?thesis by simp
  next
    case False
    with d e show ?thesis by (auto split: if_splits)
  qed
qed

text \<open>A whole number of magnitude at most \<open>2 ^ 53\<close> is a double: rounding leaves it as it is.\<close>

lemma round53_exact:
  assumes "x \<in> \<int>" and "\<bar>x\<bar> \<le> 2 ^ 53"
  shows "round53 x = x"
proof (cases "x = 0")
  case True
  then show ?thesis by (simp add: round53_def)
next
  case False
  from assms(1) obtain m where m: "x = of_int m" by (auto elim: Ints_cases)
  define n where "n = \<bar>m\<bar>"
  have ax: "\<bar>x\<bar> = of_int n" by (simp add: m n_def)
  from False have n0: "0 < n" by (simp add: m n_def)
  from assms(2) have "(of_int n :: rat) \<le> of_int (2 ^ 53)" by (simp add: ax)
  then have n53: "n \<le> 2 ^ 53" by (simp only: of_int_le_iff)
  define k where "k = exponent (of_int n) - 52"
  have "\<exists>j. (of_int n :: rat) / pow2 k = of_int j"
  proof -
    from exponent_of_int [OF n0 n53]
    consider "k \<le> 0" | "k = 1" "n = 2 ^ 53" by (auto simp: k_def)
    then show ?thesis
    proof cases
      case 1
      then have "(of_int n :: rat) / pow2 k = of_int (n * 2 ^ nat (- k))"
        by (simp add: pow2_def)
      then show ?thesis ..
    next
      case 2
      then have "(of_int n :: rat) / pow2 k = of_int (2 ^ 52)"
        by (simp add: pow2_def)
      then show ?thesis ..
    qed
  qed
  then obtain j where j: "(of_int n :: rat) / pow2 k = of_int j" ..
  have "round53 x = sgn x * of_int (round_half_even (\<bar>x\<bar> / pow2 k)) * pow2 k"
    using False by (simp add: round53_def ax k_def Let_def)
  also have "\<dots> = sgn x * (\<bar>x\<bar> / pow2 k) * pow2 k"
    by (simp only: ax j round_half_even_of_int)
  also have "\<dots> = sgn x * \<bar>x\<bar>"
    using pow2_pos [of k] by simp
  also have "\<dots> = x"
    by (simp add: sgn_mult_abs)
  finally show ?thesis .
qed


lemma fmul_exact:
  "a \<in> \<int> \<Longrightarrow> b \<in> \<int> \<Longrightarrow> \<bar>a * b\<bar> \<le> 2 ^ 53 \<Longrightarrow> fmul a b = a * b"
  by (simp add: fmul_def round53_exact)

text \<open>Roundings of the fractions that the concrete cases meet.\<close>

lemma round53_half: "round53 (1 / 2) = 1 / 2"
  by code_simp

lemma round53_seven_tenths: "round53 (7 / 10) = 3152519739159347 / 4503599627370496"
  by code_simp


section \<open>The map and the tally loop\<close>

lemma tally_Nil: "tally m [] = m"
  by (simp add: tally_def)

lemma tally_Cons: "tally m (p # ps) = tally (bump m (fst p) (snd p)) ps"
  by (simp add: tally_def)

lemma Map_get_set: "Map_get (Map_set m k v) k' = (if k' = k then Some v else Map_get m k')"
  by (induction m) auto

lemma keys_Map_set:
  "map fst (Map_set m k v) = (if k \<in> set (map fst m) then map fst m else map fst m @ [k])"
  by (induction m) (force split: if_splits)+


lemma addTransaction_bump:
  "addTransaction m t = (if tx_type t = debit then bump m (tx_category t) \<bar>tx_amount t\<bar> else m)"
  by (simp add: addTransaction_def bump_def lookup0_def Let_def)

lemma addTransaction_p2_bump: "addTransaction_p2 m t = bump m (tx_category t) (tx_amount t)"
  by (simp add: addTransaction_p2_def bump_def lookup0_def Let_def)

lemma foldl_addTransaction:
  "foldl addTransaction m ts =
     tally m (map (\<lambda>t. (tx_category t, \<bar>tx_amount t\<bar>)) (filter (\<lambda>t. tx_type t = debit) ts))"
  by (induction ts arbitrary: m) (simp_all add: tally_Nil tally_Cons addTransaction_bump)

lemma foldl_addTransaction_p2:
  "foldl addTransaction_p2 m ts = tally m (map (\<lambda>t. (tx_category t, tx_amount t)) ts)"
  by (induction ts arbitrary: m) (simp_all add: tally_Nil tally_Cons addTransaction_p2_bump)

lemma keys_bump: "map fst (bump m c x) = (if c \<in> set (map fst m) then map fst m else map fst m @ [c])"
  by (simp add: bump_def keys_Map_set)

lemma keys_tally:
  "map fst (tally m ps) =
     map fst m @ filter (\<lambda>k. k \<notin> set (map fst m)) (first_occurrences (map fst ps))"
proof (induction ps arbitrary: m)
  case Nil
  show ?case by (simp add: tally_Nil)
next
  case (Cons p ps)
  show ?case
  proof (cases "fst p \<in> set (map fst m)")
    case True
    then have "filter (\<lambda>k. k \<notin> set (map fst m)) (filter (\<lambda>y. y \<noteq> fst p) (first_occurrences (map fst ps)))
             = filter (\<lambda>k. k \<notin> set (map fst m)) (first_occurrences (map fst ps))"
      by (auto intro: filter_cong)
    with True show ?thesis by (simp add: tally_Cons Cons.IH keys_bump)
  next
    case False
    have "filter (\<lambda>k. k \<notin> set (map fst m)) (filter (\<lambda>y. y \<noteq> fst p) (first_occurrences (map fst ps)))
             = filter (\<lambda>k. k \<notin> set (map fst m @ [fst p])) (first_occurrences (map fst ps))"
      by (auto intro: filter_cong)
    with False show ?thesis by (simp add: tally_Cons Cons.IH keys_bump)
  qed
qed

lemma set_first_occurrences: "set (first_occurrences xs) = set xs"
  by (induction xs) auto

lemma distinct_first_occurrences: "distinct (first_occurrences xs)"
  by (induction xs) (auto simp: set_first_occurrences)








section \<open>The summaries\<close>

lemma distinct_map_sort_key: "distinct (map g (sort_key f xs)) = distinct (map g xs)"
  by (simp add: distinct_map)



lemma cs_name_toSummary: "map cs_name (map toSummary E) = map fst E"
  by (simp add: toSummary_def)

lemma categoryMap_of_tally:
  "categoryMap_of ts =
     tally [] (map (\<lambda>t. (tx_category t, \<bar>tx_amount t\<bar>)) (filter (\<lambda>t. tx_type t = debit) ts))"
  by (simp add: categoryMap_of_def foldl_addTransaction)

lemma keys_categoryMap_of:
  "map fst (categoryMap_of ts) =
     first_occurrences (map tx_category (filter (\<lambda>t. tx_type t = debit) ts))"
  by (simp add: categoryMap_of_tally keys_tally comp_def)

lemma summary_sorted: "sorted_wrt (\<lambda>a b. cs_total b \<le> cs_total a) (calculateCategorySummary ts)"
proof -
  have "sorted (map (\<lambda>s. - cs_total s) (calculateCategorySummary ts))"
    by (simp add: calculateCategorySummary_def)
  then show ?thesis by (simp add: sorted_map)
qed

lemma summary_ties:
  "subseq (map cs_name (filter (\<lambda>s. cs_total s = k) (calculateCategorySummary ts)))
     (first_occurrences (map tx_category (filter (\<lambda>t. tx_type t = debit) ts)))"
proof -
  have "filter (\<lambda>s. - cs_total s = - k) (calculateCategorySummary ts) =
        filter (\<lambda>s. - cs_total s = - k) (map toSummary (categoryMap_of ts))"
    unfolding calculateCategorySummary_def by (rule sort_key_stable)
  then have "filter (\<lambda>s. cs_total s = k) (calculateCategorySummary ts) =
        filter (\<lambda>s. cs_total s = k) (map toSummary (categoryMap_of ts))"
    by simp
  moreover have "subseq (map cs_name (filter (\<lambda>s. cs_total s = k) (map toSummary (categoryMap_of ts))))
              (map cs_name (map toSummary (categoryMap_of ts)))"
    by (rule subseq_map) simp
  ultimately show ?thesis by (simp only: cs_name_toSummary keys_categoryMap_of)
qed





lemma p2_name_toSummary: "map p2_name (map (toSummary_p2 g) E) = map fst E"
  by (simp add: toSummary_p2_def)

lemma categoryMap_of_p2_tally:
  "categoryMap_of_p2 ts = tally [] (map (\<lambda>t. (tx_category t, tx_amount t)) ts)"
  by (simp add: categoryMap_of_p2_def foldl_addTransaction_p2)

lemma keys_categoryMap_of_p2:
  "map fst (categoryMap_of_p2 ts) = first_occurrences (map tx_category ts)"
  by (simp add: categoryMap_of_p2_tally keys_tally comp_def)

lemma summary_p2_percentage:
  assumes "s \<in> set (calculateCategorySummary_p2 ts)"
  shows "p2_percentage s = percentageOf (totalAmount_p2 ts) (p2_total s)"
  using assms by (auto simp: calculateCategorySummary_p2_def toSummary_p2_def)

lemma percentageOf_defined: "percentageOf g x \<noteq> None"
  by (simp add: percentageOf_def js_div_def)

lemma summary_p2_sorted:
  "sorted_wrt (\<lambda>a b. p2_total b \<le> p2_total a) (calculateCategorySummary_p2 ts)"
proof -
  have "sorted (map (\<lambda>s. - p2_total s) (calculateCategorySummary_p2 ts))"
    by (simp add: calculateCategorySummary_p2_def)
  then show ?thesis by (simp add: sorted_map)
qed

lemma summary_p2_ties:
  "subseq (map p2_name (filter (\<lambda>s. p2_total s = k) (calculateCategorySummary_p2 ts)))
     (first_occurrences (map tx_category ts))"
proof -
  let ?E = "map (toSummary_p2 (totalAmount_p2 ts)) (categoryMap_of_p2 ts)"
  have "filter (\<lambda>s. - p2_total s = - k) (calculateCategorySummary_p2 ts) =
        filter (\<lambda>s. - p2_total s = - k) ?E"
    unfolding calculateCategorySummary_p2_def by (rule sort_key_stable)
  then have "filter (\<lambda>s. p2_total s = k) (calculateCategorySummary_p2 ts) =
        filter (\<lambda>s. p2_total s = k) ?E"
    by simp
  moreover have "subseq (map p2_name (filter (\<lambda>s. p2_total s = k) ?E)) (map p2_name ?E)"
    by (rule subseq_map) simp
  ultimately show ?thesis by (simp only: p2_name_toSummary keys_categoryMap_of_p2)
qed

lemma summary_p2_percentage_defined:
  "list_all (\<lambda>s. p2_percentage s \<noteq> None) (calculateCategorySummary_p2 ts)"
  unfolding list_all_iff
proof (intro ballI)
  fix s
  assume "s \<in> set (calculateCategorySummary_p2 ts)"
  then have "p2_percentage s = percentageOf (totalAmount_p2 ts) (p2_total s)"
    by (rule summary_p2_percentage)
  then show "p2_percentage s \<noteq> None"
    using percentageOf_defined [of "totalAmount_p2 ts" "p2_total s"] by simp
qed

section \<open>The handlers and the lookups\<close>

lemma trim_eq_Nil: "trim q = [] \<longleftrightarrow> list_all isWhiteSpace q"
proof
  assume "trim q = []"
  then have "\<forall>x \<in> set (dropWhile isWhiteSpace q). isWhiteSpace x"
    by (simp add: trim_def dropWhile_eq_Nil_conv)
  then have "dropWhile isWhiteSpace q = []"
    using hd_dropWhile [of isWhiteSpace q] by (cases "dropWhile isWhiteSpace q") auto
  then show "list_all isWhiteSpace q"
    by (simp add: dropWhile_eq_Nil_conv list_all_iff)
next
  assume "list_all isWhiteSpace q"
  then have "dropWhile isWhiteSpace q = []"
    by (simp add: dropWhile_eq_Nil_conv list_all_iff)
  then show "trim q = []" by (simp add: trim_def del: dropWhile_eq_Nil_conv)
qed

lemma override_transactions:
  "transactions (handleCategoryUpdate_with summarize api T C s) =
     (case api T C of
        Resolved u \<Rightarrow> map (\<lambda>t. if tx_id t = T then t\<lparr>tx_category := C\<rparr> else t) (transactions s)
      | Rejected e \<Rightarrow> transactions s)"
  by (simp add: handleCategoryUpdate_with_def split: outcome.split)

text \<open>After an accepted override the summaries are those of the list before the override.\<close>

lemma override_categories:
  "categories (handleCategoryUpdate_with summarize api T C s) =
     (case api T C of
        Resolved u \<Rightarrow> summarize (transactions s)
      | Rejected e \<Rightarrow> categories s)"
  by (simp add: handleCategoryUpdate_with_def split: outcome.split)

lemma override_frame:
  "length (transactions (handleCategoryUpdate_with summarize api T C s)) = length (transactions s) \<and>
   (\<forall>i < length (transactions s).
      tx_id (transactions s ! i) \<noteq> T \<longrightarrow>
      transactions (handleCategoryUpdate_with summarize api T C s) ! i = transactions s ! i)"
  by (simp add: override_transactions split: outcome.split)

lemma default_lookup:
  assumes "name \<notin> set (map fst obj)" and "name \<notin> set Object_prototype_keys"
  shows "js_or (js_member obj name) d = d"
proof -
  from assms(1) have "map_of obj name = None" by (simp add: map_of_eq_None_iff)
  with assms(2) show ?thesis by (simp add: js_member_def js_or_def)
qed

lemma icons_keys: "map fst CATEGORY_ICONS = map fst CATEGORY_COLORS"
  by (simp add: CATEGORY_ICONS_def CATEGORY_COLORS_def)

text \<open>
  The width of a tile is undefined exactly when the total expenses are zero; part_002's
  percentage is always defined.
\<close>

lemma tileWidth_None: "tileWidth cs c = None \<longleftrightarrow> totalExpenses cs = 0"
  by (simp add: tileWidth_def js_div_def)

text \<open>The definitions a concrete case unfolds, and the roundings it meets.\<close>

lemmas eval_defs = calculateCategorySummary_def categoryMap_of_def addTransaction_def
  toSummary_def categoryColor_def categoryIcon_def js_or_def js_member_def CATEGORY_COLORS_def
  CATEGORY_ICONS_def Object_prototype_keys_def COLORS_Miscellaneous_def ICONS_Miscellaneous_def
  calculateCategorySummary_p2_def categoryMap_of_p2_def addTransaction_p2_def totalAmount_p2_def
  toSummary_p2_def percentageOf_def js_div_def categoryColor_p2_def categoryIcon_p2_def
  totalExpenses_def tileWidth_def fadd_def fmul_def round53_exact round53_half

section \<open>The claims\<close>

subsection \<open>C1: what a summary holds\<close>

text \<open>
  C1 does not hold of part_002, the file whose summaries carry the percentage: its loop has no
  test of the transaction type and adds the signed amount. For a list that holds a single
  credit and no debit, ExpenseCategories.tsx returns no summary, as the claim says, while
  part_002 returns a summary for the credit's category with count 1 and 100 percent.
\<close>

theorem summary_p2_counts_a_credit:
  "filter (\<lambda>t. tx_type t = debit) [salary] = [] \<and>
   calculateCategorySummary [salary] = [] \<and>
   map (\<lambda>s. (p2_name s, p2_total s, p2_count s, p2_percentage s))
     (calculateCategorySummary_p2 [salary]) = [(''Income'', 5000, 1, Some 100)]"
  by (simp add: salary_def eval_defs Let_def)

text \<open>
  ExpenseCategories.tsx in turn computes the share of a category only when it renders the tiles,
  and without the guard of part_002: for a single debit of amount zero the total expenses are
  zero and the width of its tile is undefined, where part_002 shows 0 percent.
\<close>

lemma tile_width_unguarded:
  "map (tileWidth (calculateCategorySummary [freebie])) (calculateCategorySummary [freebie]) = [None] \<and>
   map p2_percentage (calculateCategorySummary_p2 [freebie]) = [Some 0]"
  by (simp add: freebie_def mkDebit_def eval_defs Let_def)

subsection \<open>C2: the summaries after an override\<close>

text \<open>
  C2 does not hold: the handler recomputes the summaries from the transaction list of the
  render it was created in, not from the list in which the override is applied. On the page
  \<open>page0\<close>, after the row \<open>t1\<close> is moved from Food & Dining to Shopping, the transactions show
  Shopping, the summaries held are still those of the old list, and the summaries of the new
  list are different.
\<close>

theorem override_summary_is_stale:
  "map tx_category (transactions (handleCategoryUpdate accepting ''t1'' ''Shopping'' page0)) =
     [''Transportation'', ''Food & Dining'', ''Income'', ''Shopping''] \<and>
   map (\<lambda>c. (cs_name c, cs_total c, cs_count c))
     (categories (handleCategoryUpdate accepting ''t1'' ''Shopping'' page0)) =
     [(''Food & Dining'', 150, 2), (''Transportation'', 50, 1)] \<and>
   map (\<lambda>c. (cs_name c, cs_total c, cs_count c))
     (calculateCategorySummary
        (transactions (handleCategoryUpdate accepting ''t1'' ''Shopping'' page0))) =
     [(''Shopping'', 120, 1), (''Transportation'', 50, 1), (''Food & Dining'', 30, 1)]"
  by (simp add: page0_def sample_def salary_def accepting_def
      handleCategoryUpdate_def handleCategoryUpdate_with_def eval_defs Let_def)

subsection \<open>C3: the order of the summaries\<close>

text \<open>
  C3, as amended. In both files the returned summaries are ordered by total, descending, and
  summaries with equal totals keep the order in which their categories first occur in the
  transaction list (among the debit transactions, in ExpenseCategories.tsx): for every value
  \<open>k\<close>, the names of the summaries whose total is \<open>k\<close>, read in output order, form a
  subsequence of the categories in order of first occurrence. The comparator looks at the total
  only; there is no alphabetical tie-break.
\<close>

theorem summary_order:
  "sorted_wrt (\<lambda>a b. cs_total b \<le> cs_total a) (calculateCategorySummary ts) \<and>
   subseq (map cs_name (filter (\<lambda>s. cs_total s = k) (calculateCategorySummary ts)))
     (first_occurrences (map tx_category (filter (\<lambda>t. tx_type t = debit) ts))) \<and>
   sorted_wrt (\<lambda>a b. p2_total b \<le> p2_total a) (calculateCategorySummary_p2 ts) \<and>
   subseq (map p2_name (filter (\<lambda>s. p2_total s = k) (calculateCategorySummary_p2 ts)))
     (first_occurrences (map tx_category ts))"
  by (intro conjI summary_sorted summary_ties summary_p2_sorted summary_p2_ties)

text \<open>Two debits of 100, the first in category B, the second in A: B is returned before A.\<close>

theorem summary_tie_not_alphabetical:
  "map (\<lambda>s. (cs_name s, cs_total s))
     (calculateCategorySummary [mkDebit ''t1'' 100 ''B'', mkDebit ''t2'' 100 ''A'']) =
     [(''B'', 100), (''A'', 100)] \<and>
   map (\<lambda>s. (p2_name s, p2_total s))
     (calculateCategorySummary_p2 [mkDebit ''t1'' 100 ''B'', mkDebit ''t2'' 100 ''A'']) =
     [(''B'', 100), (''A'', 100)]"
  by (simp add: mkDebit_def eval_defs Let_def)

subsection \<open>C4: three debits in two categories\<close>

text \<open>
  C4. For debit transactions with amounts 100, 200 and 300 in the categories A, A and B,
  whatever their other fields, part_002's computation returns exactly two summaries: A with
  total 300, count 2 and percentage 50, then B with total 300, count 1 and percentage 50.
  ExpenseCategories.tsx returns the same two summaries in the same order, without a percentage.
\<close>

theorem summary_of_three_debits:
  "calculateCategorySummary_p2
     [\<lparr>tx_id = i1, tx_date = d1, tx_description = e1, tx_amount = 100, tx_type = debit,
       tx_category = ''A'', tx_confidence = c1\<rparr>,
      \<lparr>tx_id = i2, tx_date = d2, tx_description = e2, tx_amount = 200, tx_type = debit,
       tx_category = ''A'', tx_confidence = c2\<rparr>,
      \<lparr>tx_id = i3, tx_date = d3, tx_description = e3, tx_amount = 300, tx_type = debit,
       tx_category = ''B'', tx_confidence = c3\<rparr>] =
     [\<lparr>p2_name = ''A'', p2_total = 300, p2_count = 2, p2_percentage = Some 50,
       p2_color = COLORS_Miscellaneous, p2_icon = JStr ''U+1F4CB''\<rparr>,
      \<lparr>p2_name = ''B'', p2_total = 300, p2_count = 1, p2_percentage = Some 50,
       p2_color = COLORS_Miscellaneous, p2_icon = JStr ''U+1F4CB''\<rparr>] \<and>
   calculateCategorySummary
     [\<lparr>tx_id = i1, tx_date = d1, tx_description = e1, tx_amount = 100, tx_type = debit,
       tx_category = ''A'', tx_confidence = c1\<rparr>,
      \<lparr>tx_id = i2, tx_date = d2, tx_description = e2, tx_amount = 200, tx_type = debit,
       tx_category = ''A'', tx_confidence = c2\<rparr>,
      \<lparr>tx_id = i3, tx_date = d3, tx_description = e3, tx_amount = 300, tx_type = debit,
       tx_category = ''B'', tx_confidence = c3\<rparr>] =
     [\<lparr>cs_name = ''A'', cs_total = 300, cs_count = 2,
       cs_color = COLORS_Miscellaneous, cs_icon = ICONS_Miscellaneous\<rparr>,
      \<lparr>cs_name = ''B'', cs_total = 300, cs_count = 1,
       cs_color = COLORS_Miscellaneous, cs_icon = ICONS_Miscellaneous\<rparr>]"
  by (simp add: eval_defs Let_def)

subsection \<open>C5: two classified counts\<close>

text \<open>
  C5. There is a transaction list on which the classified count of ExpenseCategories.tsx, which
  leaves out Miscellaneous and every confidence below 0.7, differs from the classified count of
  part_002, which leaves out Miscellaneous only, whatever part_002's view settings are.
\<close>

theorem classified_counts_differ:
  "\<exists>ts. \<forall>v. classifiedCount ts \<noteq> classifiedCount_p2 v ts"
proof (intro exI allI)
  fix v
  show "classifiedCount [lowConfidence] \<noteq> classifiedCount_p2 v [lowConfidence]"
    by (simp add: classifiedCount_def classifiedCount_p2_def unclassifiedTransactions_def
        filteredTransactions_p2_def lowConfidence_def round53_seven_tenths)
qed

subsection \<open>C6: an override touches one id\<close>

text \<open>
  C6. In both files, a manual override of the transaction with id \<open>T\<close> keeps the number of
  transactions and leaves every transaction whose id differs from \<open>T\<close> as it was, at its place,
  whether the server accepts the override or not; transactions with the same description as
  \<open>T\<close>'s are among them.
\<close>

theorem override_leaves_others:
  "length (transactions (handleCategoryUpdate api T C s)) = length (transactions s) \<and>
   (\<forall>i < length (transactions s).
      tx_id (transactions s ! i) \<noteq> T \<longrightarrow>
      transactions (handleCategoryUpdate api T C s) ! i = transactions s ! i) \<and>
   length (transactions (handleCategoryUpdate_p2 api T C s2)) = length (transactions s2) \<and>
   (\<forall>i < length (transactions s2).
      tx_id (transactions s2 ! i) \<noteq> T \<longrightarrow>
      transactions (handleCategoryUpdate_p2 api T C s2) ! i = transactions s2 ! i)"
  unfolding handleCategoryUpdate_def handleCategoryUpdate_p2_def
  using override_frame [of calculateCategorySummary api T C s]
    override_frame [of calculateCategorySummary_p2 api T C s2]
  by blast

theorem override_leaves_others_witness:
  "map tx_category (transactions (handleCategoryUpdate accepting ''t1'' ''Shopping'' page0)) =
     [''Transportation'', ''Food & Dining'', ''Income'', ''Shopping''] \<and>
   transactions (handleCategoryUpdate accepting ''t1'' ''Shopping'' page0) ! 1 = sample ! 2 \<and>
   tx_description (sample ! 2) = tx_description (sample ! 0) \<and>
   transactions (handleCategoryUpdate_p2 accepting ''t1'' ''Shopping'' page0_p2) ! 2 = sample ! 2"
  using override_leaves_others [of accepting "''t1''" "''Shopping''" page0 page0_p2]
  by (simp add: page0_def page0_p2_def sample_def salary_def accepting_def
      handleCategoryUpdate_def handleCategoryUpdate_p2_def handleCategoryUpdate_with_def)

subsection \<open>C7: the empty list\<close>

text \<open>
  C7. On the empty transaction list both computations return the empty sequence. In part_002
  the grand total of the empty list is 0, and with a grand total of 0 the guard yields the
  percentage 0 without dividing; for every list, no returned percentage is the result of a
  division by zero. ExpenseCategories.tsx's computation contains no division.
\<close>

theorem summary_of_empty_list:
  "calculateCategorySummary [] = [] \<and>
   calculateCategorySummary_p2 [] = [] \<and>
   totalAmount_p2 [] = 0 \<and>
   percentageOf 0 x = Some 0 \<and>
   list_all (\<lambda>s. p2_percentage s \<noteq> None) (calculateCategorySummary_p2 ts)"
proof (intro conjI)
  show "calculateCategorySummary [] = []"
    by (simp add: calculateCategorySummary_def categoryMap_of_def)
  show "calculateCategorySummary_p2 [] = []"
    by (simp add: calculateCategorySummary_p2_def categoryMap_of_p2_def)
  show "totalAmount_p2 [] = 0"
    by (simp add: totalAmount_p2_def)
  show "percentageOf 0 x = Some 0"
    by (simp add: percentageOf_def)
  show "list_all (\<lambda>s. p2_percentage s \<noteq> None) (calculateCategorySummary_p2 ts)"
    by (rule summary_p2_percentage_defined)
qed

subsection \<open>C8: unknown category names\<close>

text \<open>
  C8, as amended. For every category name that is neither one of the ten keys of the tables nor
  the name of a member inherited from \<^verbatim>\<open>Object.prototype\<close>, the colour and icon lookups of both
  files return the Miscellaneous colour and the clipboard icon. No lookup fails, and the
  fallback is written in both files.
\<close>

theorem lookups_fall_back:
  assumes "name \<notin> set (map fst CATEGORY_COLORS)" and "name \<notin> set Object_prototype_keys"
  shows "categoryColor name = COLORS_Miscellaneous \<and> categoryIcon name = ICONS_Miscellaneous \<and>
         categoryColor_p2 name = COLORS_Miscellaneous \<and> categoryIcon_p2 name = JStr ''U+1F4CB''"
  using assms
  by (simp only: categoryColor_def categoryIcon_def categoryColor_p2_def categoryIcon_p2_def
      default_lookup icons_keys [symmetric] simp_thms)

theorem lookups_fall_back_witness:
  "categoryColor ''Groceries'' = JStr ''bg-orange-100 text-orange-800 border-orange-200'' \<and>
   categoryIcon ''Groceries'' = JStr ''U+1F4CB'' \<and>
   categoryColor_p2 ''Groceries'' = JStr ''bg-orange-100 text-orange-800 border-orange-200'' \<and>
   categoryIcon_p2 ''Groceries'' = JStr ''U+1F4CB''"
  using lookups_fall_back [of "''Groceries''"]
  by (simp add: CATEGORY_COLORS_def Object_prototype_keys_def COLORS_Miscellaneous_def
      ICONS_Miscellaneous_def)

text \<open>
  The README names a category Others, which is not a key of the tables: both files show it
  exactly as they show Miscellaneous.
\<close>

theorem lookup_of_unknown_category:
  "''Others'' \<notin> set (map fst CATEGORY_COLORS) \<and>
   categoryColor ''Others'' = categoryColor ''Miscellaneous'' \<and>
   categoryIcon ''Others'' = categoryIcon ''Miscellaneous'' \<and>
   categoryColor_p2 ''Others'' = categoryColor_p2 ''Miscellaneous'' \<and>
   categoryIcon_p2 ''Others'' = categoryIcon_p2 ''Miscellaneous''"
  by (simp add: eval_defs)

subsection \<open>C9: conservation\<close>




subsection \<open>C10: the search handler\<close>

text \<open>
  C10. When the query is empty or consists of white space only, \<^verbatim>\<open>handleSearch\<close> sends no request
  and leaves the store as it is. When the query is anything else and the backend call throws,
  the handler still completes normally, having sent that one request, and leaves the store with
  an empty result list, the searching flag false and the query recorded; nothing else of the
  store changes.
\<close>

theorem search_failure_absorbed:
  "(list_all isWhiteSpace query \<longrightarrow>
      handleSearch searchDocuments query limit s = (Resolved (), s, [])) \<and>
   (\<not> list_all isWhiteSpace query \<and>
    searchDocuments \<lparr>rq_query = query, rq_limit = limit\<rparr> = Rejected e \<longrightarrow>
      handleSearch searchDocuments query limit s =
        (Resolved (), s\<lparr>isSearching := False, searchQuery := query, searchResults := []\<rparr>,
         [\<lparr>rq_query = query, rq_limit = limit\<rparr>]))"
  by (simp add: handleSearch_def trim_eq_Nil Let_def)

theorem search_failure_absorbed_witness:
  "handleSearch failing [0x20, 0x09, 0x3000] 5 store0 = (Resolved (), store0, []) \<and>
   handleSearch failing [0x20, 0x74, 0x61, 0x78] 5 store0 =
     (Resolved (),
      \<lparr>searchResults = [], isSearching = False, searchQuery = [0x20, 0x74, 0x61, 0x78]\<rparr>,
      [\<lparr>rq_query = [0x20, 0x74, 0x61, 0x78], rq_limit = 5\<rparr>])"
  using search_failure_absorbed [of "[0x20, 0x09, 0x3000]" failing 5 store0 "''Network Error''"]
    search_failure_absorbed [of "[0x20, 0x74, 0x61, 0x78]" failing 5 store0 "''Network Error''"]
  by (simp add: isWhiteSpace_def failing_def store0_def)

end
